theory Spec2Isabelle
  imports Complex_Main "HOL-Library.Sublist"
begin

section \<open>Data model (src/frontend/src/types/security.ts)\<close>

text \<open>
  A JavaScript string is modelled as a HOL \<^typ>\<open>string\<close>, one \<^typ>\<open>char\<close> per code unit;
  a JavaScript \<^verbatim>\<open>number\<close> that comes out of a JSON payload or of \<^verbatim>\<open>Date.now()\<close> is a
  \<^typ>\<open>real\<close>; \<^verbatim>\<open>T | null\<close> and an optional field \<^verbatim>\<open>f?: T\<close> are \<^typ>\<open>'a option\<close>.
\<close>

type_synonym number = real

text \<open>\<^verbatim>\<open>export type AgentStatus = 'pending' | 'running' | 'complete';\<close>\<close>

datatype AgentStatus = Pending | Running | Complete


record SemgrepFindingEvent =
  rule_id :: string
  message :: string
  severity :: string
  finding_file :: "string option"
  finding_line :: "number option"

record HandoffEvent =
  handoff_from :: string
  handoff_to :: string
  handoff_summary :: string

record SecurityIssue =
  issue_title :: string
  issue_description :: string
  issue_code :: string
  issue_fix :: string
  cvss_score :: number
  issue_severity :: string
  issue_source :: string

record ExploitScenario =
  scenario_title :: string
  attack_vector :: string
  steps :: "string list"
  impact :: string
  likelihood :: string
  related_issues :: "string list"

record AnalysisResponse =
  response_summary :: string
  code_type :: string
  risk_areas :: "string list"
  issues :: "SecurityIssue list"
  exploit_scenarios :: "ExploitScenario list"
  remediation_priority :: "string list"

record PipelineStep =
  agent :: string
  step :: nat
  status :: AgentStatus
  thoughts :: "string list"
  elapsedMs :: "number option"
  summary :: "string option"
  toolActivity :: "string list"
  semgrepFindings :: "SemgrepFindingEvent list"
  startedAt :: "number option"

text \<open>
  One server-sent event as \<^verbatim>\<open>handleSSEEvent(eventType, data)\<close> receives it. The constructor
  is the \<^verbatim>\<open>eventType\<close>; its arguments are \<^verbatim>\<open>data\<close> read at the type the matching
  \<^verbatim>\<open>case\<close> casts it to:
  \<^item> \<^verbatim>\<open>agent_start\<close>: \<^verbatim>\<open>StreamAgentEvent\<close> (agent, step, total);
  \<^item> \<^verbatim>\<open>agent_thought\<close>: agent, text;
  \<^item> \<^verbatim>\<open>tool_called\<close>: agent, tool;
  \<^item> \<^verbatim>\<open>semgrep_finding\<close>: \<^verbatim>\<open>SemgrepFindingEvent\<close>;
  \<^item> \<^verbatim>\<open>agent_complete\<close>: \<^verbatim>\<open>StreamAgentCompleteEvent\<close> (agent, step, elapsed_ms?);
  \<^item> \<^verbatim>\<open>handoff\<close>: \<^verbatim>\<open>HandoffEvent\<close>;
  \<^item> \<^verbatim>\<open>analysis_complete\<close>: \<^verbatim>\<open>AnalysisResponse\<close>;
  \<^item> \<^verbatim>\<open>error\<close>: \<^verbatim>\<open>{ message?: string }\<close>;
  \<^item> any other event type, which no \<^verbatim>\<open>case\<close> of the \<^verbatim>\<open>switch\<close> matches.
\<close>

datatype sse_event =
    Ev_agent_start string number number
  | Ev_agent_thought string string
  | Ev_tool_called string string
  | Ev_semgrep_finding SemgrepFindingEvent
  | Ev_agent_complete string number "number option"
  | Ev_handoff HandoffEvent
  | Ev_analysis_complete AnalysisResponse
  | Ev_error "string option"
  | Ev_other string

fun eventType :: "sse_event \<Rightarrow> string" where
  "eventType (Ev_agent_start a n t) = ''agent_start''"
| "eventType (Ev_agent_thought a x) = ''agent_thought''"
| "eventType (Ev_tool_called a x) = ''tool_called''"
| "eventType (Ev_semgrep_finding f) = ''semgrep_finding''"
| "eventType (Ev_agent_complete a n ms) = ''agent_complete''"
| "eventType (Ev_handoff h) = ''handoff''"
| "eventType (Ev_analysis_complete r) = ''analysis_complete''"
| "eventType (Ev_error m) = ''error''"
| "eventType (Ev_other t) = t"

section \<open>The page component \<^verbatim>\<open>Home\<close> (src/frontend/src/app/page.tsx)\<close>

definition DEFAULT_AGENTS :: "string list" where
  "DEFAULT_AGENTS =
     [''Triage Agent'', ''Static Analysis Agent'', ''Code Review Agent'',
      ''Red Team Agent'', ''Blue Team Agent'', ''Report Synthesizer'']"

text \<open>\<^verbatim>\<open>DEFAULT_AGENTS.map((agent, i) => ({ agent, step: i + 1, status: 'pending', ... }))\<close>\<close>

definition initialStep :: "string \<Rightarrow> nat \<Rightarrow> PipelineStep" where
  "initialStep a i =
     \<lparr> agent = a, step = i + 1, status = Pending, thoughts = [], elapsedMs = None,
       summary = None, toolActivity = [], semgrepFindings = [], startedAt = None \<rparr>"

definition buildInitialSteps :: "PipelineStep list" where
  "buildInitialSteps =
     map (\<lambda>(a, i). initialStep a i) (zip DEFAULT_AGENTS [0 ..< length DEFAULT_AGENTS])"

text \<open>
  The state of \<^verbatim>\<open>Home\<close>: its \<^verbatim>\<open>useState\<close> cells, and \<^verbatim>\<open>handoffTimerPending\<close> for
  the timeout that \<^verbatim>\<open>handoffTimerRef\<close> holds (whether one is still to fire).
\<close>

record home_state =
  codeContent :: string
  fileName :: string
  analysisResults :: "AnalysisResponse option"
  isAnalyzing :: bool
  error :: "string option"
  pipelineSteps :: "PipelineStep list"
  activeHandoff :: "HandoffEvent option"
  handoffTimerPending :: bool

definition initial_state :: home_state where
  "initial_state =
     \<lparr> codeContent = [], fileName = [], analysisResults = None, isAnalyzing = False,
       error = None, pipelineSteps = buildInitialSteps, activeHandoff = None,
       handoffTimerPending = False \<rparr>"

text \<open>
  \<^verbatim>\<open>prev.map(s => (s.agent === agentName ? { ...s, ...updater(s) } : s))\<close>. The updater of the
  source returns the fields to overwrite; here it returns the step with those fields
  overwritten, which is the spread \<^verbatim>\<open>{ ...s, ...updater(s) }\<close>.
\<close>

definition updateStep ::
  "string \<Rightarrow> (PipelineStep \<Rightarrow> PipelineStep) \<Rightarrow> PipelineStep list \<Rightarrow> PipelineStep list" where
  "updateStep agentName updater prev =
     map (\<lambda>s. if agent s = agentName then updater s else s) prev"

text \<open>\<^verbatim>\<open>s.thoughts.length > 0 ? s.thoughts[s.thoughts.length - 1].slice(0, 80) : null\<close>\<close>

definition completeSummary :: "PipelineStep \<Rightarrow> string option" where
  "completeSummary s =
     (if length (thoughts s) > 0
      then Some (take 80 (thoughts s ! (length (thoughts s) - 1)))
      else None)"

text \<open>
  \<^verbatim>\<open>handleSSEEvent\<close>; \<open>now\<close> is what \<^verbatim>\<open>Date.now()\<close> returns while the event is processed.
  \<^verbatim>\<open>(data as { message?: string }).message || 'Analysis failed'\<close> takes the default for an
  absent and for an empty message.
\<close>

fun handleSSEEvent :: "sse_event \<Rightarrow> number \<Rightarrow> home_state \<Rightarrow> home_state" where
  "handleSSEEvent (Ev_agent_start a n t) now st =
     st\<lparr>pipelineSteps :=
          updateStep a (\<lambda>s. s\<lparr>status := Running, startedAt := Some now\<rparr>) (pipelineSteps st)\<rparr>"
| "handleSSEEvent (Ev_agent_thought a text) now st =
     st\<lparr>pipelineSteps :=
          updateStep a (\<lambda>s. s\<lparr>thoughts := thoughts s @ [text]\<rparr>) (pipelineSteps st)\<rparr>"
| "handleSSEEvent (Ev_tool_called a tool) now st =
     st\<lparr>pipelineSteps :=
          updateStep a (\<lambda>s. s\<lparr>toolActivity := toolActivity s @ [tool]\<rparr>) (pipelineSteps st)\<rparr>"
| "handleSSEEvent (Ev_semgrep_finding finding) now st =
     st\<lparr>pipelineSteps :=
          updateStep ''Static Analysis Agent''
            (\<lambda>s. s\<lparr>semgrepFindings := semgrepFindings s @ [finding]\<rparr>) (pipelineSteps st)\<rparr>"
| "handleSSEEvent (Ev_agent_complete a n ms) now st =
     st\<lparr>pipelineSteps :=
          updateStep a
            (\<lambda>s. s\<lparr>status := Complete, elapsedMs := ms, summary := completeSummary s\<rparr>)
            (pipelineSteps st)\<rparr>"
| "handleSSEEvent (Ev_handoff h) now st =
     st\<lparr>activeHandoff := Some h, handoffTimerPending := True\<rparr>"
| "handleSSEEvent (Ev_analysis_complete r) now st =
     st\<lparr>pipelineSteps := map (\<lambda>s. s\<lparr>status := Complete\<rparr>) (pipelineSteps st),
        analysisResults := Some r\<rparr>"
| "handleSSEEvent (Ev_error m) now st =
     st\<lparr>error := Some (case m of None \<Rightarrow> ''Analysis failed''
                          | Some msg \<Rightarrow> if msg = [] then ''Analysis failed'' else msg)\<rparr>"
| "handleSSEEvent (Ev_other t) now st = st"

text \<open>
  The timeout armed by a \<^verbatim>\<open>handoff\<close> event: \<^verbatim>\<open>() => setActiveHandoff(null)\<close>, 2 s later.
  It touches \<^verbatim>\<open>activeHandoff\<close> only.
\<close>

definition handoffTimeout :: "home_state \<Rightarrow> home_state" where
  "handoffTimeout st =
     (if handoffTimerPending st then st\<lparr>activeHandoff := None, handoffTimerPending := False\<rparr>
      else st)"

subsection \<open>Strings\<close>

text \<open>\<^verbatim>\<open>s.endsWith(t)\<close>\<close>

definition endsWith :: "string \<Rightarrow> string \<Rightarrow> bool" where
  "endsWith s t = (length t \<le> length s \<and> drop (length s - length t) s = t)"

text \<open>
  \<^verbatim>\<open>s.toLowerCase()\<close> on the letters \<^verbatim>\<open>A\<close> to \<^verbatim>\<open>Z\<close> (character codes 65 to 90); every
  other \<^typ>\<open>char\<close> is kept. Case mappings outside ASCII are not modelled.
\<close>

definition toLowerCase_char :: "char \<Rightarrow> char" where
  "toLowerCase_char c =
     (if 65 \<le> (of_char c :: nat) \<and> (of_char c :: nat) \<le> 90
      then char_of ((of_char c :: nat) + 32) else c)"

definition toLowerCase :: "string \<Rightarrow> string" where
  "toLowerCase s = map toLowerCase_char s"

subsection \<open>Loading code\<close>

text \<open>
  What a handler does besides updating state: \<^verbatim>\<open>alert(msg)\<close>, and the
  \<^verbatim>\<open>fetch\<close> of \<^verbatim>\<open>/api/analyze/stream\<close> with the submitted code as its body.
\<close>

datatype effect = Alert string | Fetch string

text \<open>
  A \<^verbatim>\<open>File\<close>: its name, and the text \<^verbatim>\<open>FileReader.readAsText\<close> delivers to
  \<^verbatim>\<open>reader.onload\<close> (\<open>None\<close> when the read fails and \<^verbatim>\<open>onload\<close> never runs).
\<close>

record File =
  file_name :: string
  file_text :: "string option"

text \<open>
  \<^verbatim>\<open>handleFileUpload\<close>; the argument is \<^verbatim>\<open>event.target.files?.[0]\<close>. The state returned
  is the one after \<^verbatim>\<open>reader.onload\<close> has run.
\<close>

definition handleFileUpload :: "File option \<Rightarrow> home_state \<Rightarrow> home_state \<times> effect list" where
  "handleFileUpload f st =
     (case f of
        None \<Rightarrow> (st, [Alert ''Please select a Python (.py) file''])
      | Some fl \<Rightarrow>
          if endsWith (file_name fl) ''.py''
          then (case file_text fl of
                  None \<Rightarrow> (st\<lparr>fileName := file_name fl\<rparr>, [])
                | Some content \<Rightarrow>
                    (st\<lparr>fileName := file_name fl, codeContent := content,
                        analysisResults := None, error := None,
                        pipelineSteps := buildInitialSteps\<rparr>, []))
          else (st, [Alert ''Please select a Python (.py) file'']))"

definition handleFileContentLoaded :: "string \<Rightarrow> string \<Rightarrow> home_state \<Rightarrow> home_state" where
  "handleFileContentLoaded name content st =
     st\<lparr>fileName := name, codeContent := content, analysisResults := None, error := None,
        pipelineSteps := buildInitialSteps\<rparr>"

text \<open>\<^verbatim>\<open>onContentChange={setCodeContent}\<close>: an edit in the editor.\<close>

definition setCodeContent :: "string \<Rightarrow> home_state \<Rightarrow> home_state" where
  "setCodeContent content st = st\<lparr>codeContent := content\<rparr>"

subsection \<open>Running an analysis\<close>

text \<open>
  What the request of \<^verbatim>\<open>handleAnalyzeCode\<close> meets:
  \<^item> \<open>Fetch_rejected m\<close>: \<^verbatim>\<open>fetch\<close> throws; \<open>m\<close> is \<^verbatim>\<open>err.message\<close> when the thrown
    value is an \<^verbatim>\<open>Error\<close>;
  \<^item> \<open>Http_not_ok code\<close>: \<^verbatim>\<open>!response.ok\<close>, with \<^verbatim>\<open>response.status\<close> printed as \<open>code\<close>;
  \<^item> \<open>No_body\<close>: \<^verbatim>\<open>response.body?.getReader()\<close> is undefined;
  \<^item> \<open>Body evs fin\<close>: the stream is read; \<open>evs\<close> are the calls
    \<^verbatim>\<open>handleSSEEvent(eventType, data)\<close> the read loop makes, in order, each with the value of
    \<^verbatim>\<open>Date.now()\<close> at that time; then the stream is done (\<open>fin = None\<close>) or a read throws
    (\<open>fin = Some m\<close>, \<open>m\<close> as for \<open>Fetch_rejected\<close>).
  The framing of the stream (lines, \<^verbatim>\<open>event: \<close> and \<^verbatim>\<open>data: \<close> prefixes, \<^verbatim>\<open>JSON.parse\<close>) is
  not part of the model.
\<close>

datatype response =
    Fetch_rejected "string option"
  | Http_not_ok string
  | No_body
  | Body "(number \<times> sse_event) list" "string option option"

text \<open>\<^verbatim>\<open>err instanceof Error ? err.message : 'An error occurred during analysis'\<close>\<close>

definition errorMessage :: "string option \<Rightarrow> string" where
  "errorMessage m = (case m of Some msg \<Rightarrow> msg | None \<Rightarrow> ''An error occurred during analysis'')"

definition readStream :: "(number \<times> sse_event) list \<Rightarrow> home_state \<Rightarrow> home_state" where
  "readStream evs st = foldl (\<lambda>s (now, ev). handleSSEEvent ev now s) st evs"

definition handleAnalyzeCode :: "response \<Rightarrow> home_state \<Rightarrow> home_state \<times> effect list" where
  "handleAnalyzeCode resp st =
     (if codeContent st = []
      then (st, [Alert ''Please upload a Python file first''])
      else
        let st1 = st\<lparr>isAnalyzing := True, error := None, analysisResults := None,
                     pipelineSteps := buildInitialSteps\<rparr>;
            st2 = (case resp of
                     Fetch_rejected m \<Rightarrow> st1\<lparr>error := Some (errorMessage m)\<rparr>
                   | Http_not_ok code \<Rightarrow> st1\<lparr>error := Some (''HTTP error! status: '' @ code)\<rparr>
                   | No_body \<Rightarrow> st1\<lparr>error := Some ''No response body''\<rparr>
                   | Body evs fin \<Rightarrow>
                       (case fin of
                          None \<Rightarrow> readStream evs st1
                        | Some m \<Rightarrow> (readStream evs st1)\<lparr>error := Some (errorMessage m)\<rparr>))
        in (st2\<lparr>isAnalyzing := False\<rparr>, [Fetch (codeContent st)]))"

section \<open>The code input component \<^verbatim>\<open>CodeInput\<close> (second file in src/frontend/src/components/PipelineProgress.tsx)\<close>

text \<open>
  \<^verbatim>\<open>handleDrop\<close>; \<open>onFileUpload\<close> is the component's prop of that name, the first argument
  is \<^verbatim>\<open>e.dataTransfer.files?.[0]\<close>, and the state is the component's \<^verbatim>\<open>isDragging\<close> with
  the state of the owner of \<open>onFileUpload\<close>.
\<close>

definition handleDrop ::
  "(File option \<Rightarrow> 'st \<Rightarrow> 'st \<times> effect list) \<Rightarrow> File option \<Rightarrow> bool \<times> 'st
     \<Rightarrow> (bool \<times> 'st) \<times> effect list" where
  "handleDrop onFileUpload f s =
     (case f of
        None \<Rightarrow> ((False, snd s), [])
      | Some fl \<Rightarrow>
          if \<not> endsWith (toLowerCase (file_name fl)) ''.py''
          then ((False, snd s), [])
          else (let (st', fx) = onFileUpload (Some fl) (snd s) in ((False, st'), fx)))"

text \<open>\<^verbatim>\<open><CodeInput onFileUpload={handleFileUpload} ... />\<close> in \<^verbatim>\<open>Home\<close>.\<close>

definition dropOnPage :: "File option \<Rightarrow> bool \<times> home_state \<Rightarrow> (bool \<times> home_state) \<times> effect list" where
  "dropOnPage = handleDrop handleFileUpload"

section \<open>Semgrep finding cards (\<^verbatim>\<open>SemgrepFinding\<close> in src/frontend/src/components/PipelineProgress.tsx)\<close>

text \<open>
  The table \<^verbatim>\<open>severityColors\<close> of \<^verbatim>\<open>SemgrepFinding\<close>, with its keys as written, and
  \<^verbatim>\<open>severityColors[finding.severity] || 'bg-gray-100 text-gray-600'\<close>. Every value of the
  table is a non-empty string. The table is an object literal, so a lookup of a name that
  is not among its keys but is a member of \<^verbatim>\<open>Object.prototype\<close> yields that member, a
  function or an object and so truthy, and the default is not taken; for any other name
  the lookup is undefined and the default is taken.
\<close>

text \<open>
  What \<^verbatim>\<open>colorClass\<close> holds: a class string, or the member of \<^verbatim>\<open>Object.prototype\<close>
  of the given name.
\<close>

datatype class_value = Class_string string | Inherited_member string

text \<open>The names of the members of \<^verbatim>\<open>Object.prototype\<close>, which every object literal inherits.\<close>

definition Object_prototype_names :: "string list" where
  "Object_prototype_names =
     [''constructor'', ''__defineGetter__'', ''__defineSetter__'', ''hasOwnProperty'',
      ''__lookupGetter__'', ''__lookupSetter__'', ''isPrototypeOf'', ''propertyIsEnumerable'',
      ''toString'', ''valueOf'', ''__proto__'', ''toLocaleString'']"

definition severityColors :: "(string \<times> string) list" where
  "severityColors =
     [(''ERROR'', ''bg-red-100 text-red-700''),
      (''WARNING'', ''bg-amber-100 text-amber-700''),
      (''INFO'', ''bg-blue-100 text-blue-700''),
      (''error'', ''bg-red-100 text-red-700''),
      (''warning'', ''bg-amber-100 text-amber-700''),
      (''info'', ''bg-blue-100 text-blue-700'')]"

definition colorClass :: "SemgrepFindingEvent \<Rightarrow> class_value" where
  "colorClass finding =
     (case map_of severityColors (severity finding) of
        Some c \<Rightarrow> Class_string c
      | None \<Rightarrow>
          if severity finding \<in> set Object_prototype_names
          then Inherited_member (severity finding)
          else Class_string ''bg-gray-100 text-gray-600'')"

section \<open>The results component \<^verbatim>\<open>AnalysisResults\<close> (src/unnamed/part_000)\<close>













section \<open>The page as a transition system\<close>

text \<open>
  Everything that changes the state of \<^verbatim>\<open>Home\<close>: picking a file, dropping one on the
  editor, loading an example, editing, pressing Analyze (with what the request meets),
  and the handoff timeout.
\<close>

datatype home_action =
    Act_file_upload "File option"
  | Act_drop "File option"
  | Act_load_example string string
  | Act_content_change string
  | Act_analyze response
  | Act_handoff_timeout

fun perform :: "home_action \<Rightarrow> home_state \<Rightarrow> home_state" where
  "perform (Act_file_upload f) st = fst (handleFileUpload f st)"
| "perform (Act_drop f) st = snd (fst (dropOnPage f (False, st)))"
| "perform (Act_load_example name content) st = handleFileContentLoaded name content st"
| "perform (Act_content_change content) st = setCodeContent content st"
| "perform (Act_analyze resp) st = fst (handleAnalyzeCode resp st)"
| "perform Act_handoff_timeout st = handoffTimeout st"

definition run :: "home_action list \<Rightarrow> home_state" where
  "run acts = foldl (\<lambda>st a. perform a st) initial_state acts"

text \<open>The stage names and ordinals of a state are those of \<^verbatim>\<open>buildInitialSteps()\<close>.\<close>

definition stage_order :: "home_state \<Rightarrow> bool" where
  "stage_order st \<longleftrightarrow>
     map agent (pipelineSteps st) = map agent buildInitialSteps \<and>
     map step (pipelineSteps st) = map step buildInitialSteps"

text \<open>Only the stage named Static Analysis Agent holds findings.\<close>

definition findings_confined :: "home_state \<Rightarrow> bool" where
  "findings_confined st \<longleftrightarrow>
     list_all (\<lambda>s. agent s = ''Static Analysis Agent'' \<or> semgrepFindings s = []) (pipelineSteps st)"

section \<open>Example inputs\<close>

definition example_finding :: "string \<Rightarrow> SemgrepFindingEvent" where
  "example_finding sev =
     \<lparr> rule_id = ''python.lang.security.audit.eval-detected'',
       message = ''Detected the use of eval()'', severity = sev,
       finding_file = Some ''calculator_eval.py'', finding_line = Some 6 \<rparr>"

definition example_events :: "(number \<times> sse_event) list" where
  "example_events =
     [(1000, Ev_agent_start ''Triage Agent'' 1 6),
      (1010, Ev_agent_thought ''Triage Agent'' ''Classifying the code. ''),
      (1020, Ev_agent_thought ''Triage Agent'' ''It is a command-line script.''),
      (1900, Ev_agent_complete ''Triage Agent'' 1 (Some 900)),
      (1901, Ev_handoff \<lparr> handoff_from = ''Triage Agent'', handoff_to = ''Static Analysis Agent'',
                          handoff_summary = ''CLI script'' \<rparr>),
      (1902, Ev_agent_start ''Static Analysis Agent'' 2 6),
      (1950, Ev_tool_called ''Static Analysis Agent'' ''semgrep_scan'')]"

text \<open>A run that has completed its first stage and is inside the second.\<close>

definition example_state :: home_state where
  "example_state =
     readStream example_events
       (initial_state\<lparr>codeContent := ''print(eval(input()))'', fileName := ''calculator_eval.py'',
                      isAnalyzing := True\<rparr>)"




definition long_thought :: string where
  "long_thought =
     ''The script reads a line from standard input and hands it to eval(), so whoever types the line runs code.''"


definition dropped_upper :: File where
  "dropped_upper = \<lparr>file_name = ''APP.PY'', file_text = Some ''print(eval(input()))''\<rparr>"

definition dropped_lower :: File where
  "dropped_lower = \<lparr>file_name = ''app.py'', file_text = Some ''print(eval(input()))''\<rparr>"

section \<open>Stage order and initial stage states\<close>

lemma buildInitialSteps_unfold:
  "buildInitialSteps =
     [initialStep ''Triage Agent'' 0, initialStep ''Static Analysis Agent'' 1,
      initialStep ''Code Review Agent'' 2, initialStep ''Red Team Agent'' 3,
      initialStep ''Blue Team Agent'' 4, initialStep ''Report Synthesizer'' 5]"
  by (simp add: buildInitialSteps_def DEFAULT_AGENTS_def upt_rec eval_nat_numeral)

lemma updateStep_agent:
  "(\<And>s. agent (f s) = agent s) \<Longrightarrow> map agent (updateStep a f ps) = map agent ps"
  by (simp add: updateStep_def)

lemma updateStep_step:
  "(\<And>s. step (f s) = step s) \<Longrightarrow> map step (updateStep a f ps) = map step ps"
  by (simp add: updateStep_def)

lemma handleSSEEvent_agent:
  "map agent (pipelineSteps (handleSSEEvent e now st)) = map agent (pipelineSteps st)"
  by (cases e) (simp_all add: updateStep_agent)

lemma handleSSEEvent_step:
  "map step (pipelineSteps (handleSSEEvent e now st)) = map step (pipelineSteps st)"
  by (cases e) (simp_all add: updateStep_step)

lemma readStream_agent:
  "map agent (pipelineSteps (readStream evs st)) = map agent (pipelineSteps st)"
  unfolding readStream_def
  by (induction evs arbitrary: st) (simp_all add: handleSSEEvent_agent split: prod.splits)

lemma readStream_step:
  "map step (pipelineSteps (readStream evs st)) = map step (pipelineSteps st)"
  unfolding readStream_def
  by (induction evs arbitrary: st) (simp_all add: handleSSEEvent_step split: prod.splits)

lemma handleSSEEvent_order: "stage_order (handleSSEEvent e now st) = stage_order st"
  by (simp add: stage_order_def handleSSEEvent_agent handleSSEEvent_step)

lemma readStream_order: "stage_order (readStream evs st) = stage_order st"
  by (simp add: stage_order_def readStream_agent readStream_step)

lemma handleFileUpload_order: "stage_order st \<Longrightarrow> stage_order (fst (handleFileUpload f st))"
  by (simp add: handleFileUpload_def stage_order_def split: option.splits)

lemma handleAnalyzeCode_order: "stage_order st \<Longrightarrow> stage_order (fst (handleAnalyzeCode resp st))"
  by (simp add: handleAnalyzeCode_def stage_order_def Let_def readStream_agent readStream_step
      split: response.splits option.splits)

lemma dropOnPage_order: "stage_order st \<Longrightarrow> stage_order (snd (fst (dropOnPage f (d, st))))"
  using handleFileUpload_order [of st f]
  by (auto simp add: dropOnPage_def handleDrop_def split: option.splits prod.splits)

lemma perform_order:
  assumes "stage_order st"
  shows "stage_order (perform a st)"
proof (cases a)
  case (Act_file_upload f)
  with assms show ?thesis by (simp add: handleFileUpload_order)
next
  case (Act_drop f)
  with assms show ?thesis by (simp add: dropOnPage_order)
next
  case (Act_load_example name content)
  then show ?thesis by (simp add: handleFileContentLoaded_def stage_order_def)
next
  case (Act_content_change content)
  with assms show ?thesis by (simp add: setCodeContent_def stage_order_def)
next
  case (Act_analyze r)
  with assms show ?thesis by (simp add: handleAnalyzeCode_order)
next
  case Act_handoff_timeout
  with assms show ?thesis by (simp add: handoffTimeout_def stage_order_def)
qed

lemma run_order: "stage_order (run acts)"
  unfolding run_def
proof (induction acts rule: rev_induct)
  case Nil
  show ?case by (simp add: stage_order_def initial_state_def)
next
  case (snoc a acts)
  then show ?case by (simp add: perform_order)
qed

text \<open>
  Claim C1. \<^verbatim>\<open>buildInitialSteps()\<close> yields the six stages Triage Agent, Static Analysis
  Agent, Code Review Agent, Red Team Agent, Blue Team Agent, Report Synthesizer in that
  order, with ordinals 1 to 6, each pending with no narration, no tool activity and no
  findings; and whatever the user and the server do afterwards, the page still holds these
  six stage names with these ordinals, in this order.
\<close>

theorem stage_order_fixed:
  "map agent buildInitialSteps =
     [''Triage Agent'', ''Static Analysis Agent'', ''Code Review Agent'',
      ''Red Team Agent'', ''Blue Team Agent'', ''Report Synthesizer''] \<and>
   map step buildInitialSteps = [1, 2, 3, 4, 5, 6] \<and>
   map status buildInitialSteps = [Pending, Pending, Pending, Pending, Pending, Pending] \<and>
   map thoughts buildInitialSteps = [[], [], [], [], [], []] \<and>
   map toolActivity buildInitialSteps = [[], [], [], [], [], []] \<and>
   map semgrepFindings buildInitialSteps = [[], [], [], [], [], []] \<and>
   map agent (pipelineSteps (run acts)) = map agent buildInitialSteps \<and>
   map step (pipelineSteps (run acts)) = map step buildInitialSteps"
  using run_order [of acts]
  by (simp add: stage_order_def buildInitialSteps_unfold initialStep_def)

lemma example_state_steps:
  "pipelineSteps example_state =
     [(initialStep ''Triage Agent'' 0)
        \<lparr>status := Complete, thoughts := [''Classifying the code. '', ''It is a command-line script.''],
         elapsedMs := Some 900, summary := Some ''It is a command-line script.'', startedAt := Some 1000\<rparr>,
      (initialStep ''Static Analysis Agent'' 1)
        \<lparr>status := Running, toolActivity := [''semgrep_scan''], startedAt := Some 1902\<rparr>,
      initialStep ''Code Review Agent'' 2, initialStep ''Red Team Agent'' 3,
      initialStep ''Blue Team Agent'' 4, initialStep ''Report Synthesizer'' 5]"
  by (simp add: example_state_def example_events_def readStream_def initial_state_def
      buildInitialSteps_unfold updateStep_def initialStep_def completeSummary_def)

lemma example_state_order: "stage_order example_state"
  unfolding example_state_def readStream_order
  by (simp add: stage_order_def initial_state_def)

lemma stage_order_length: "stage_order st \<Longrightarrow> length (pipelineSteps st) = 6"
proof -
  assume "stage_order st"
  then have "length (map agent (pipelineSteps st)) = length (map agent buildInitialSteps)"
    by (simp add: stage_order_def)
  then show ?thesis by (simp add: buildInitialSteps_unfold)
qed

section \<open>Completion, failure and per-stage events\<close>






lemma updateStep_length: "length (updateStep a f ps) = length ps"
  by (simp add: updateStep_def)

lemma updateStep_nth:
  "i < length ps \<Longrightarrow> updateStep a f ps ! i = (if agent (ps ! i) = a then f (ps ! i) else ps ! i)"
  by (simp add: updateStep_def)

lemma handleSSEEvent_length:
  "length (pipelineSteps (handleSSEEvent e now st)) = length (pipelineSteps st)"
  by (cases e) (simp_all add: updateStep_length)






section \<open>Submitting code\<close>

text \<open>
  Claim C5. With empty code content \<^verbatim>\<open>handleAnalyzeCode\<close> only raises the alert: it
  issues no request, whatever the server would have answered, and it leaves the state as
  it was, so steps that were all pending, with no result and no error, remain so.
\<close>
theorem empty_code_rejected:
  assumes "codeContent st = []"
  shows "handleAnalyzeCode resp st = (st, [Alert ''Please upload a Python file first'']) \<and>
         (\<forall>body. Fetch body \<notin> set (snd (handleAnalyzeCode resp st))) \<and>
         (list_all (\<lambda>s. status s = Pending) (pipelineSteps st) \<and> analysisResults st = None \<and>
            error st = None \<longrightarrow>
          list_all (\<lambda>s. status s = Pending) (pipelineSteps (fst (handleAnalyzeCode resp st))) \<and>
          analysisResults (fst (handleAnalyzeCode resp st)) = None \<and>
          error (fst (handleAnalyzeCode resp st)) = None)"
  using assms by (simp add: handleAnalyzeCode_def)

text \<open>
  On the freshly loaded page, with a server ready to stream the events of the example run.
\<close>
theorem empty_code_rejected_witness:
  "codeContent initial_state = [] \<and>
   handleAnalyzeCode (Body example_events None) initial_state =
     (initial_state, [Alert ''Please upload a Python file first'']) \<and>
   list_all (\<lambda>s. status s = Pending)
     (pipelineSteps (fst (handleAnalyzeCode (Body example_events None) initial_state))) \<and>
   analysisResults (fst (handleAnalyzeCode (Body example_events None) initial_state)) = None \<and>
   error (fst (handleAnalyzeCode (Body example_events None) initial_state)) = None"
  using empty_code_rejected [of initial_state "Body example_events None"]
  by (simp add: initial_state_def buildInitialSteps_unfold initialStep_def)

text \<open>By contrast, any non-empty content is sent.\<close>
lemma nonempty_code_fetches:
  "codeContent st \<noteq> [] \<Longrightarrow> snd (handleAnalyzeCode resp st) = [Fetch (codeContent st)]"
  by (simp add: handleAnalyzeCode_def Let_def)

section \<open>Showing a result\<close>



section \<open>Severity of a finding\<close>

text \<open>
  Claim C7. The style of a Semgrep finding is looked up by the exact spelling of its
  severity, and the table lists the upper-case and the lower-case spellings only:
  \<^verbatim>\<open>ERROR\<close> and \<^verbatim>\<open>error\<close> get the error style, while \<^verbatim>\<open>Error\<close>, a case variant
  of both, falls through to the default grey style.
\<close>
theorem severity_mixed_case_unstyled:
  "colorClass (example_finding ''ERROR'') = Class_string ''bg-red-100 text-red-700'' \<and>
   colorClass (example_finding ''error'') = Class_string ''bg-red-100 text-red-700'' \<and>
   colorClass (example_finding ''Error'') = Class_string ''bg-gray-100 text-gray-600'' \<and>
   toLowerCase ''Error'' = toLowerCase ''ERROR''"
  by code_simp

text \<open>A severity that names an inherited member gets neither a style of the table nor the default.\<close>

lemma severity_inherited_name:
  "colorClass (example_finding ''constructor'') = Inherited_member ''constructor''"
  by code_simp

section \<open>Where findings go\<close>
lemma other_findings_kept:
  assumes "i < length (pipelineSteps st)"
    and "agent (pipelineSteps st ! i) \<noteq> ''Static Analysis Agent''"
  shows "semgrepFindings (pipelineSteps (handleSSEEvent e now st) ! i) =
         semgrepFindings (pipelineSteps st ! i)"
  using assms by (cases e) (simp_all add: updateStep_nth)

lemma handleSSEEvent_confined:
  "findings_confined st \<Longrightarrow> findings_confined (handleSSEEvent e now st)"
  by (cases e) (auto simp add: findings_confined_def updateStep_def list_all_iff)

lemma readStream_confined: "findings_confined st \<Longrightarrow> findings_confined (readStream evs st)"
  unfolding readStream_def
  by (induction evs arbitrary: st) (simp_all add: handleSSEEvent_confined split: prod.splits)

lemma initial_confined: "findings_confined (st\<lparr>pipelineSteps := buildInitialSteps\<rparr>)"
  by (simp add: findings_confined_def buildInitialSteps_unfold initialStep_def)

lemma handleFileUpload_confined:
  "findings_confined st \<Longrightarrow> findings_confined (fst (handleFileUpload f st))"
  using initial_confined [of st]
  by (auto simp add: handleFileUpload_def findings_confined_def split: option.splits)

lemma handleAnalyzeCode_confined:
  "findings_confined st \<Longrightarrow> findings_confined (fst (handleAnalyzeCode resp st))"
proof (cases "codeContent st = []")
  case True
  assume "findings_confined st"
  with True show ?thesis by (simp add: handleAnalyzeCode_def)
next
  case False
  let ?st1 = "st\<lparr>isAnalyzing := True, error := None, analysisResults := None,
                   pipelineSteps := buildInitialSteps\<rparr>"
  have c1: "findings_confined ?st1"
    by (simp add: findings_confined_def buildInitialSteps_unfold initialStep_def)
  have c2: "findings_confined (readStream evs ?st1)" for evs
    using c1 by (rule readStream_confined)
  show ?thesis
    using False c1 c2
    by (cases resp) (simp_all add: handleAnalyzeCode_def Let_def findings_confined_def split: option.splits)
qed

lemma perform_confined:
  assumes "findings_confined st"
  shows "findings_confined (perform a st)"
proof (cases a)
  case (Act_file_upload f)
  with assms show ?thesis by (simp add: handleFileUpload_confined)
next
  case (Act_drop f)
  with assms handleFileUpload_confined [of st f] show ?thesis
    by (auto simp add: dropOnPage_def handleDrop_def split: option.splits prod.splits)
next
  case (Act_load_example name content)
  then show ?thesis
    by (simp add: handleFileContentLoaded_def findings_confined_def buildInitialSteps_unfold
        initialStep_def)
next
  case (Act_content_change content)
  with assms show ?thesis by (simp add: setCodeContent_def findings_confined_def)
next
  case (Act_analyze r)
  with assms show ?thesis by (simp add: handleAnalyzeCode_confined)
next
  case Act_handoff_timeout
  with assms show ?thesis by (simp add: handoffTimeout_def findings_confined_def)
qed

lemma run_confined: "findings_confined (run acts)"
  unfolding run_def
proof (induction acts rule: rev_induct)
  case Nil
  show ?case
    by (simp add: findings_confined_def initial_state_def buildInitialSteps_unfold initialStep_def)
next
  case (snoc a acts)
  then show ?case by (simp add: perform_confined)
qed

lemma stage_order_nth:
  assumes "stage_order st" and "i < 6"
  shows "agent (pipelineSteps st ! i) = agent (buildInitialSteps ! i) \<and>
         step (pipelineSteps st ! i) = step (buildInitialSteps ! i)"
proof -
  have len: "length (pipelineSteps st) = 6" using assms(1) by (rule stage_order_length)
  have "map agent (pipelineSteps st) ! i = map agent buildInitialSteps ! i"
       "map step (pipelineSteps st) ! i = map step buildInitialSteps ! i"
    using assms(1) by (simp_all add: stage_order_def)
  moreover have "length buildInitialSteps = 6" by (simp add: buildInitialSteps_unfold)
  ultimately show ?thesis using len assms(2) by simp
qed

lemma static_analysis_position:
  assumes "stage_order st" and "i < 6"
  shows "agent (pipelineSteps st ! i) = ''Static Analysis Agent'' \<longleftrightarrow> i = 1"
proof -
  have "i = 0 \<or> i = 1 \<or> i = 2 \<or> i = 3 \<or> i = 4 \<or> i = 5" using assms(2) by arith
  then show ?thesis
    using stage_order_nth [OF assms]
    by (auto simp add: buildInitialSteps_unfold initialStep_def)
qed

text \<open>
  Claim C8. The stage named Static Analysis Agent is the second of the six and has
  ordinal 2. A \<^verbatim>\<open>semgrep_finding\<close> event, which names no stage, appends its finding to
  the findings of that stage; no event of any type changes the findings of another stage;
  and in every state the page can reach, the findings of the other five stages are empty.
\<close>
theorem findings_go_to_static_analysis:
  assumes "stage_order st"
  shows "agent (pipelineSteps st ! 1) = ''Static Analysis Agent'' \<and>
         step (pipelineSteps st ! 1) = 2 \<and>
         semgrepFindings (pipelineSteps (handleSSEEvent (Ev_semgrep_finding f) now st) ! 1) =
           semgrepFindings (pipelineSteps st ! 1) @ [f] \<and>
         (\<forall>i<6. i \<noteq> 1 \<longrightarrow>
            semgrepFindings (pipelineSteps (handleSSEEvent e now st) ! i) =
            semgrepFindings (pipelineSteps st ! i)) \<and>
         (\<forall>i<6. i \<noteq> 1 \<longrightarrow> semgrepFindings (pipelineSteps (run acts) ! i) = [])"
proof (intro conjI allI impI)
  have len: "length (pipelineSteps st) = 6" using assms by (rule stage_order_length)
  show a1: "agent (pipelineSteps st ! 1) = ''Static Analysis Agent''"
    using static_analysis_position [OF assms, of 1] by simp
  show "step (pipelineSteps st ! 1) = 2"
    using stage_order_nth [OF assms, of 1] by (simp add: buildInitialSteps_unfold initialStep_def)
  show "semgrepFindings (pipelineSteps (handleSSEEvent (Ev_semgrep_finding f) now st) ! 1) =
           semgrepFindings (pipelineSteps st ! 1) @ [f]"
    using a1 len by (simp add: updateStep_nth)
next
  fix i :: nat
  assume i: "i < 6" "i \<noteq> 1"
  have len: "length (pipelineSteps st) = 6" using assms by (rule stage_order_length)
  have "agent (pipelineSteps st ! i) \<noteq> ''Static Analysis Agent''"
    using static_analysis_position [OF assms i(1)] i(2) by simp
  then show "semgrepFindings (pipelineSteps (handleSSEEvent e now st) ! i) =
            semgrepFindings (pipelineSteps st ! i)"
    using other_findings_kept [of i st e now] len i(1) by simp
next
  fix i :: nat
  assume i: "i < 6" "i \<noteq> 1"
  have ord: "stage_order (run acts)" by (rule run_order)
  then have len: "length (pipelineSteps (run acts)) = 6" by (rule stage_order_length)
  have "agent (pipelineSteps (run acts) ! i) \<noteq> ''Static Analysis Agent''"
    using static_analysis_position [OF ord i(1)] i(2) by simp
  moreover have "agent (pipelineSteps (run acts) ! i) = ''Static Analysis Agent'' \<or>
                 semgrepFindings (pipelineSteps (run acts) ! i) = []"
    using run_confined [of acts] len i(1) by (simp add: findings_confined_def list_all_length)
  ultimately show "semgrepFindings (pipelineSteps (run acts) ! i) = []" by simp
qed

text \<open>
  A finding received during the example run, and a whole analysis whose stream ends with
  that finding.
\<close>
theorem findings_go_to_static_analysis_witness:
  "stage_order example_state \<and>
   semgrepFindings (pipelineSteps (handleSSEEvent (Ev_semgrep_finding (example_finding ''ERROR'')) 2500
      example_state) ! 1) = [example_finding ''ERROR''] \<and>
   semgrepFindings (pipelineSteps (handleSSEEvent (Ev_semgrep_finding (example_finding ''ERROR'')) 2500
      example_state) ! 0) = [] \<and>
   semgrepFindings (pipelineSteps (run [Act_load_example ''calculator_eval.py'' ''print(eval(input()))'',
      Act_analyze (Body (example_events @ [(2500, Ev_semgrep_finding (example_finding ''ERROR''))]) None)]) ! 2)
     = []"
  using findings_go_to_static_analysis
          [of example_state "example_finding ''ERROR''" 2500
              "Ev_semgrep_finding (example_finding ''ERROR'')"
              "[Act_load_example ''calculator_eval.py'' ''print(eval(input()))'',
                Act_analyze (Body (example_events @ [(2500, Ev_semgrep_finding (example_finding ''ERROR''))]) None)]"]
        example_state_order
  by (simp add: example_state_steps initialStep_def)

section \<open>Frame of the per-stage events\<close>

text \<open>
  Claim C9. An \<^verbatim>\<open>agent_start\<close>, \<^verbatim>\<open>agent_thought\<close>, \<^verbatim>\<open>tool_called\<close> or
  \<^verbatim>\<open>agent_complete\<close> event for the stage named \<open>a\<close> keeps the number of steps and the
  name of every step, leaves every step with another name unchanged, and only extends the
  narration and the tool activity of a step: what was there before is a prefix of what is
  there afterwards.
\<close>
theorem stage_events_touch_one_stage:
  assumes "e = Ev_agent_start a n t \<or> e = Ev_agent_thought a x \<or> e = Ev_tool_called a x \<or>
           e = Ev_agent_complete a n ms"
    and "i < length (pipelineSteps st)"
  shows "length (pipelineSteps (handleSSEEvent e now st)) = length (pipelineSteps st) \<and>
         (agent (pipelineSteps st ! i) \<noteq> a \<longrightarrow>
            pipelineSteps (handleSSEEvent e now st) ! i = pipelineSteps st ! i) \<and>
         agent (pipelineSteps (handleSSEEvent e now st) ! i) = agent (pipelineSteps st ! i) \<and>
         prefix (thoughts (pipelineSteps st ! i)) (thoughts (pipelineSteps (handleSSEEvent e now st) ! i)) \<and>
         prefix (toolActivity (pipelineSteps st ! i))
                (toolActivity (pipelineSteps (handleSSEEvent e now st) ! i))"
  using assms by (auto simp add: updateStep_nth updateStep_length)

text \<open>
  A narration line for the second stage of the example run: the first stage is untouched,
  the line is appended to the second.
\<close>
theorem stage_events_touch_one_stage_witness:
  "(1::nat) < length (pipelineSteps example_state) \<and> (0::nat) < length (pipelineSteps example_state) \<and>
   pipelineSteps (handleSSEEvent (Ev_agent_thought ''Static Analysis Agent'' long_thought) 2600
      example_state) ! 0 = pipelineSteps example_state ! 0 \<and>
   prefix (thoughts (pipelineSteps example_state ! 1))
     (thoughts (pipelineSteps (handleSSEEvent (Ev_agent_thought ''Static Analysis Agent'' long_thought)
        2600 example_state) ! 1)) \<and>
   thoughts (pipelineSteps (handleSSEEvent (Ev_agent_thought ''Static Analysis Agent'' long_thought)
        2600 example_state) ! 1) = [long_thought]"
  using stage_events_touch_one_stage
          [of "Ev_agent_thought ''Static Analysis Agent'' long_thought" "''Static Analysis Agent''"
              0 0 long_thought None 0 example_state 2600]
        stage_events_touch_one_stage
          [of "Ev_agent_thought ''Static Analysis Agent'' long_thought" "''Static Analysis Agent''"
              0 0 long_thought None 1 example_state 2600]
  by (simp add: example_state_steps initialStep_def updateStep_def)

section \<open>Accepting a file\<close>
lemma lower_APP_PY: "toLowerCase ''APP.PY'' = ''app.py''"
  by code_simp

lemma lower_app_py: "toLowerCase ''app.py'' = ''app.py''"
  by code_simp

text \<open>
  Claim C10. A file named \<^verbatim>\<open>APP.PY\<close> passes the check of \<^verbatim>\<open>handleDrop\<close>, which
  lowercases the name, and fails the check of \<^verbatim>\<open>handleFileUpload\<close>, which does not.
  \<^verbatim>\<open>handleDrop\<close> hands the file to \<^verbatim>\<open>handleFileUpload\<close>, so dropping it loads nothing
  and raises the alert of the file picker; dropping \<^verbatim>\<open>app.py\<close> loads it.
\<close>
theorem drop_of_upper_case_name_rejected:
  "endsWith (toLowerCase (file_name dropped_upper)) ''.py'' \<and>
   \<not> endsWith (file_name dropped_upper) ''.py'' \<and>
   dropOnPage (Some dropped_upper) (True, initial_state) =
     ((False, initial_state), [Alert ''Please select a Python (.py) file'']) \<and>
   handleFileUpload (Some dropped_upper) initial_state =
     (initial_state, [Alert ''Please select a Python (.py) file'']) \<and>
   dropOnPage (Some dropped_lower) (True, initial_state) =
     ((False, initial_state\<lparr>fileName := ''app.py'', codeContent := ''print(eval(input()))''\<rparr>), [])"
  by (simp add: dropOnPage_def handleDrop_def handleFileUpload_def dropped_upper_def dropped_lower_def
      lower_APP_PY lower_app_py endsWith_def initial_state_def)

end
